theory Spec2Isabelle
  imports Main "HOL-Library.AList"
begin

section \<open>Values received from and sent to clients\<close>

text \<open>
  Event payloads are JavaScript values decoded from the wire.  Numbers are kept as
  integers: the handlers only test them for truthiness.  An object is the list of its
  own properties, each key once.
\<close>

datatype jsval =
    JUndefined
  | JNull
  | JBool bool
  | JNum int
  | JStr string
  | JArr "jsval list"
  | JObj "(string \<times> jsval) list"

text \<open>The test behind \<^verbatim>\<open>if (v)\<close> and \<^verbatim>\<open>!v\<close>.\<close>

fun truthy :: "jsval \<Rightarrow> bool" where
  "truthy JUndefined = False"
| "truthy JNull = False"
| "truthy (JBool b) = b"
| "truthy (JNum n) = (n \<noteq> 0)"
| "truthy (JStr s) = (s \<noteq> [])"
| "truthy (JArr xs) = True"
| "truthy (JObj fs) = True"

text \<open>
  Destructuring \<^verbatim>\<open>const { k } = v\<close> throws a TypeError when \<open>v\<close> is \<^verbatim>\<open>undefined\<close> or
  \<^verbatim>\<open>null\<close>; on every other value it reads the property \<open>k\<close>, which is \<^verbatim>\<open>undefined\<close>
  unless \<open>v\<close> is an object that has it.  (The keys the handlers read,
  \<^verbatim>\<open>conversationId\<close>, \<^verbatim>\<open>userId\<close>, \<^verbatim>\<open>messageIds\<close>, \<^verbatim>\<open>to\<close>, \<^verbatim>\<open>from\<close>, \<^verbatim>\<open>signal\<close>,
  \<^verbatim>\<open>candidate\<close>, are defined by no prototype.)
\<close>

fun nullish :: "jsval \<Rightarrow> bool" where
  "nullish JUndefined = True"
| "nullish JNull = True"
| "nullish v = False"

fun getprop :: "jsval \<Rightarrow> string \<Rightarrow> jsval" where
  "getprop (JObj fs) k = (case map_of fs k of None \<Rightarrow> JUndefined | Some v \<Rightarrow> v)"
| "getprop v k = JUndefined"

datatype error = TypeError

text \<open>
  A template literal \<^verbatim>\<open>`... ${v} ...`\<close> converts \<open>v\<close> to a string.  For an object the
  conversion calls its \<^verbatim>\<open>toString\<close>: an own property of that name, which on a decoded
  payload is never a function, hides the inherited method, the inherited \<^verbatim>\<open>valueOf\<close>
  returns the object itself, and the conversion throws a TypeError.  An array converts
  its elements (other than \<^verbatim>\<open>undefined\<close> and \<^verbatim>\<open>null\<close>) in turn.  Strings, numbers,
  booleans, \<^verbatim>\<open>undefined\<close> and \<^verbatim>\<open>null\<close> always convert.
\<close>

fun toString_throws :: "jsval \<Rightarrow> bool" where
  "toString_throws (JObj fs) = (''toString'' \<in> set (map fst fs))"
| "toString_throws (JArr xs) = list_ex toString_throws xs"
| "toString_throws v = False"

text \<open>
  A call \<^verbatim>\<open>log(level, context, `...`)\<close> evaluates its message before it prints: it
  throws when one of the interpolated values does, and has no other effect on the state
  or on the emissions.  The argument lists the interpolated values that come from the
  payload; \<^verbatim>\<open>socket.id\<close> and the \<^verbatim>\<open>userId\<close> of the handshake query are strings (or
  arrays of strings, or \<^verbatim>\<open>undefined\<close>) and always convert.
\<close>

definition log_throws :: "jsval list \<Rightarrow> bool" where
  "log_throws vs = list_ex toString_throws vs"

section \<open>The JavaScript Map\<close>

text \<open>
  A \<^verbatim>\<open>Map\<close> iterates in insertion order; \<^verbatim>\<open>set\<close> on a key that is present replaces
  the value where it stands, on an absent key it appends.  This is an association list
  with distinct keys, with the operations of the library theory AList.
\<close>

definition Map_get :: "('k \<times> 'v) list \<Rightarrow> 'k \<Rightarrow> 'v option" where
  "Map_get m k = map_of m k"

definition Map_set :: "'k \<Rightarrow> 'v \<Rightarrow> ('k \<times> 'v) list \<Rightarrow> ('k \<times> 'v) list" where
  "Map_set k v m = AList.update k v m"

definition Map_delete :: "'k \<Rightarrow> ('k \<times> 'v) list \<Rightarrow> ('k \<times> 'v) list" where
  "Map_delete k m = AList.delete k m"

definition Map_keys :: "('k \<times> 'v) list \<Rightarrow> 'k list" where
  "Map_keys m = map fst m"

section \<open>Server state\<close>

type_synonym sid = string
type_synonym uid = string
type_synonym room = jsval

text \<open>The value stored in \<^verbatim>\<open>onlineUsers\<close>: \<^verbatim>\<open>{ socketId: socket.id, status: "online" }\<close>.\<close>

record presence =
  socketId :: sid
  status :: string

text \<open>
  \<open>onlineUsers\<close> and \<open>userSockets\<close> are the two module-level maps of the server.
  \<open>sockets\<close> is the state the transport keeps: the connected sockets in connection
  order, each with its \<^verbatim>\<open>socket.rooms\<close> (a set in insertion order, whose first
  element is the room named by the socket's own id).
\<close>

record server =
  onlineUsers :: "(uid \<times> presence) list"
  userSockets :: "(sid \<times> uid) list"
  sockets :: "(sid \<times> room list) list"

definition init :: server where
  "init = \<lparr>onlineUsers = [], userSockets = [], sockets = []\<rparr>"

section \<open>Emissions\<close>

text \<open>
  The five ways in which the handlers address an emission:
  \<^verbatim>\<open>socket.emit\<close>, \<^verbatim>\<open>socket.broadcast.emit\<close>, \<^verbatim>\<open>socket.to(room).emit\<close>,
  \<^verbatim>\<open>io.to(room).emit\<close> and \<^verbatim>\<open>io.emit\<close>.
\<close>

datatype target =
    Socket sid
  | Broadcast sid
  | SocketTo sid room
  | IoTo room
  | Io

type_synonym emission = "target \<times> string \<times> jsval"

text \<open>
  Modelled from the spec: the transport library is not among the sources; the channels
  an emission reaches follow the contract of the channel abstraction (section 4.1) and
  the lifecycle controller (section 4.3): a send to one channel reaches that channel if
  it is still connected, a send to a group reaches every channel currently joined to it
  except the excluded sender, a broadcast reaches all other channels.  A socket is a
  member of the room named by its own id, so \<^verbatim>\<open>io.to(socketId)\<close> is the send to one
  channel.  Room names are compared as values.
\<close>

fun recipients :: "server \<Rightarrow> target \<Rightarrow> sid list" where
  "recipients st (Socket s) = [x \<leftarrow> map fst (sockets st). x = s]"
| "recipients st (Broadcast s) = [x \<leftarrow> map fst (sockets st). x \<noteq> s]"
| "recipients st (SocketTo s r) = map fst [e \<leftarrow> sockets st. fst e \<noteq> s \<and> r \<in> set (snd e)]"
| "recipients st (IoTo r) = map fst [e \<leftarrow> sockets st. r \<in> set (snd e)]"
| "recipients st Io = map fst (sockets st)"

text \<open>What each channel receives: (channel, event, payload).\<close>

fun deliver :: "server \<Rightarrow> emission \<Rightarrow> (sid \<times> string \<times> jsval) list" where
  "deliver st (t, ev, payload) = map (\<lambda>x. (x, ev, payload)) (recipients st t)"

definition deliveries :: "server \<Rightarrow> emission list \<Rightarrow> (sid \<times> string \<times> jsval) list" where
  "deliveries st out = concat (map (deliver st) out)"

text \<open>
  Modelled from the spec: \<^verbatim>\<open>socket.join(room)\<close> is the \<open>join\<close> of the channel
  abstraction (section 4.1), idempotent: joining a room already joined changes nothing.
  A new room is added at the end of \<^verbatim>\<open>socket.rooms\<close>.
\<close>

definition join :: "sid \<Rightarrow> room \<Rightarrow> server \<Rightarrow> server" where
  "join sock r st =
     (case Map_get (sockets st) sock of
        None \<Rightarrow> st
      | Some rs \<Rightarrow>
          if r \<in> set rs then st
          else st\<lparr>sockets := Map_set sock (rs @ [r]) (sockets st)\<rparr>)"

definition socket_rooms :: "server \<Rightarrow> sid \<Rightarrow> room list" where
  "socket_rooms st sock = (case Map_get (sockets st) sock of None \<Rightarrow> [] | Some rs \<Rightarrow> rs)"

section \<open>Presence: connection and disconnection\<close>

text \<open>\<^verbatim>\<open>Array.from(onlineUsers.keys())\<close>\<close>

definition onlineUserIds :: "server \<Rightarrow> uid list" where
  "onlineUserIds st = Map_keys (onlineUsers st)"

text \<open>
  \<^verbatim>\<open>broadcastOnlineUsers(socket)\<close> emits on \<^verbatim>\<open>(socket || io)\<close>: on the socket when one is
  passed, on the whole server when none is.
\<close>

definition broadcastOnlineUsers :: "sid option \<Rightarrow> server \<Rightarrow> emission list" where
  "broadcastOnlineUsers socket st =
     [(case socket of Some s \<Rightarrow> Socket s | None \<Rightarrow> Io,
       ''onlineUsersList'', JArr (map JStr (onlineUserIds st)))]"

definition handleUserConnection :: "sid \<Rightarrow> uid \<Rightarrow> server \<Rightarrow> server \<times> emission list" where
  "handleUserConnection sock userId st =
     (let st1 = st\<lparr>onlineUsers :=
                   Map_set userId \<lparr>socketId = sock, status = ''online''\<rparr> (onlineUsers st)\<rparr>;
          st2 = st1\<lparr>userSockets := Map_set sock userId (userSockets st1)\<rparr>
      in (st2, (Broadcast sock, ''userOnline'', JStr userId) # broadcastOnlineUsers None st2))"

text \<open>\<^verbatim>\<open>userSockets.get(socket.id)\<close> as a value: \<^verbatim>\<open>undefined\<close> when the key is absent.\<close>

definition userSockets_get :: "server \<Rightarrow> sid \<Rightarrow> jsval" where
  "userSockets_get st sock =
     (case Map_get (userSockets st) sock of None \<Rightarrow> JUndefined | Some u \<Rightarrow> JStr u)"

text \<open>The loop \<^verbatim>\<open>for (const room of socket.rooms)\<close> of \<^verbatim>\<open>handleUserDisconnection\<close>.\<close>

fun leave_rooms :: "sid \<Rightarrow> server \<Rightarrow> room list \<Rightarrow> emission list" where
  "leave_rooms sock st [] = []"
| "leave_rooms sock st (room # rest) =
     (if room \<noteq> JStr sock
      then (SocketTo sock room, ''user-left-room'',
             JObj [(''userId'', userSockets_get st sock), (''room'', room)])
           # leave_rooms sock st rest
      else leave_rooms sock st rest)"

definition handleUserDisconnection :: "sid \<Rightarrow> server \<Rightarrow> server \<times> emission list" where
  "handleUserDisconnection sock st =
     (let left = leave_rooms sock st (socket_rooms st sock);
          disconnectedUserId = userSockets_get st sock
      in if truthy disconnectedUserId then
           (case disconnectedUserId of
              JStr u \<Rightarrow>
                (let st1 = st\<lparr>onlineUsers := Map_delete u (onlineUsers st)\<rparr>;
                     st2 = st1\<lparr>userSockets := Map_delete sock (userSockets st1)\<rparr>
                 in (st2, left @ (Broadcast sock, ''userOffline'', JStr u)
                                 # broadcastOnlineUsers None st2))
            | _ \<Rightarrow> (st, left))
         else (st, left))"

text \<open>
  \<^verbatim>\<open>io.on("connection", ...)\<close>.  The transport has added the socket, joined to the
  room of its own id, before the handler runs.  \<open>userId\<close> is
  \<^verbatim>\<open>socket.handshake.query.userId\<close>; it is registered when
  \<^verbatim>\<open>userId && typeof userId === "string"\<close>.
\<close>

definition connection :: "sid \<Rightarrow> jsval \<Rightarrow> server \<Rightarrow> server \<times> emission list" where
  "connection sock userId st =
     (let st0 = st\<lparr>sockets := Map_set sock [JStr sock] (sockets st)\<rparr>
      in if truthy userId then
           (case userId of
              JStr u \<Rightarrow> handleUserConnection sock u st0
            | _ \<Rightarrow> (st0, []))
         else (st0, []))"

text \<open>
  The close of a channel: the \<^verbatim>\<open>disconnecting\<close> handler runs while the socket is still
  in its rooms, then the transport removes the socket.
\<close>

definition disconnect :: "sid \<Rightarrow> server \<Rightarrow> server \<times> emission list" where
  "disconnect sock st =
     (let (st1, out) = handleUserDisconnection sock st
      in (st1\<lparr>sockets := Map_delete sock (sockets st1)\<rparr>, out))"

section \<open>Event handlers\<close>

text \<open>
  Every handler ends with the state and the emissions it made: \<open>Inr\<close> when it returned,
  \<open>Inl\<close> with the error when it threw, which keeps what was done before the throw.  The
  handler of \<^verbatim>\<open>error\<close> only logs, changes no state and emits nothing; it is left out.
\<close>

type_synonym outcome = "(error \<times> server \<times> emission list) + (server \<times> emission list)"

definition on_joinConversation :: "sid \<Rightarrow> jsval \<Rightarrow> server \<Rightarrow> outcome" where
  "on_joinConversation sock conversationId st =
     (if \<not> truthy conversationId then Inr (st, [])
      else let st1 = join sock conversationId st
           in if log_throws [conversationId] then Inl (TypeError, st1, [])
              else Inr (st1, []))"

definition on_sendMessage :: "sid \<Rightarrow> jsval \<Rightarrow> server \<Rightarrow> outcome" where
  "on_sendMessage sock message st =
     (if nullish message then Inl (TypeError, st, [])
      else let conversationId = getprop message ''conversationId''
           in if \<not> truthy conversationId
              then Inr (st, [(Socket sock, ''error'',
                              JObj [(''message'', JStr ''Message must have a conversationId.'')])])
              else Inr (st, [(SocketTo sock conversationId, ''newMessage'', message)]))"

definition on_messageRead :: "sid \<Rightarrow> jsval \<Rightarrow> server \<Rightarrow> outcome" where
  "on_messageRead sock data st =
     (if nullish data then Inl (TypeError, st, [])
      else let conversationId = getprop data ''conversationId'';
               userId = getprop data ''userId'';
               messageIds = getprop data ''messageIds''
           in if \<not> truthy conversationId \<or> \<not> truthy userId \<or> \<not> truthy messageIds
              then Inr (st, [])
              else Inr (st, [(SocketTo sock conversationId, ''messageRead'',
                              JObj [(''conversationId'', conversationId),
                                    (''userId'', userId),
                                    (''messageIds'', messageIds)])]))"

definition on_startTyping :: "sid \<Rightarrow> jsval \<Rightarrow> server \<Rightarrow> outcome" where
  "on_startTyping sock data st =
     (if nullish data then Inl (TypeError, st, [])
      else let conversationId = getprop data ''conversationId'';
               userId = getprop data ''userId''
           in if \<not> truthy conversationId \<or> \<not> truthy userId
              then Inr (st, [])
              else Inr (st, [(SocketTo sock conversationId, ''startTyping'',
                              JObj [(''conversationId'', conversationId),
                                    (''userId'', userId)])]))"

definition on_stopTyping :: "sid \<Rightarrow> jsval \<Rightarrow> server \<Rightarrow> outcome" where
  "on_stopTyping sock data st =
     (if nullish data then Inl (TypeError, st, [])
      else let conversationId = getprop data ''conversationId'';
               userId = getprop data ''userId''
           in if \<not> truthy conversationId \<or> \<not> truthy userId
              then Inr (st, [])
              else Inr (st, [(SocketTo sock conversationId, ''stopTyping'',
                              JObj [(''conversationId'', conversationId),
                                    (''userId'', userId)])]))"

definition on_requestOnlineUsers :: "sid \<Rightarrow> server \<Rightarrow> outcome" where
  "on_requestOnlineUsers sock st = Inr (st, broadcastOnlineUsers (Some sock) st)"

text \<open>
  \<^verbatim>\<open>onlineUsers.get(to)\<close>: the keys of \<^verbatim>\<open>onlineUsers\<close> are strings, so a \<open>to\<close> that is
  not a string finds nothing.
\<close>

fun onlineUsers_get :: "server \<Rightarrow> jsval \<Rightarrow> presence option" where
  "onlineUsers_get st (JStr u) = Map_get (onlineUsers st) u"
| "onlineUsers_get st v = None"

definition on_callUser :: "sid \<Rightarrow> jsval \<Rightarrow> server \<Rightarrow> outcome" where
  "on_callUser sock data st =
     (if nullish data then Inl (TypeError, st, [])
      else let to = getprop data ''to''; from = getprop data ''from''; signal = getprop data ''signal''
           in case onlineUsers_get st to of
                Some recipient \<Rightarrow>
                  (let out = [(IoTo (JStr (socketId recipient)), ''incoming-call'',
                               JObj [(''from'', from), (''signal'', signal)])]
                   in if log_throws [from, to] then Inl (TypeError, st, out)
                      else Inr (st, out))
              | None \<Rightarrow>
                  if log_throws [to] then Inl (TypeError, st, []) else Inr (st, []))"

definition on_answerMade :: "sid \<Rightarrow> jsval \<Rightarrow> server \<Rightarrow> outcome" where
  "on_answerMade sock data st =
     (if nullish data then Inl (TypeError, st, [])
      else let to = getprop data ''to''; from = getprop data ''from''; signal = getprop data ''signal''
           in case onlineUsers_get st to of
                Some originalCaller \<Rightarrow>
                  (let out = [(IoTo (JStr (socketId originalCaller)), ''call-accepted'',
                               JObj [(''from'', from), (''signal'', signal)])]
                   in if log_throws [from, to] then Inl (TypeError, st, out)
                      else Inr (st, out))
              | None \<Rightarrow> Inr (st, []))"

definition on_iceCandidate :: "sid \<Rightarrow> jsval \<Rightarrow> server \<Rightarrow> outcome" where
  "on_iceCandidate sock data st =
     (if nullish data then Inl (TypeError, st, [])
      else let to = getprop data ''to''; candidate = getprop data ''candidate''
           in case onlineUsers_get st to of
                Some recipient \<Rightarrow>
                  Inr (st, [(IoTo (JStr (socketId recipient)), ''ice-candidate'',
                             JObj [(''from'', userSockets_get st sock),
                                   (''candidate'', candidate)])])
              | None \<Rightarrow> Inr (st, []))"

text \<open>The events a client can send after the connection, and their dispatch.\<close>

datatype event =
    JoinConversation jsval
  | SendMessage jsval
  | MessageRead jsval
  | StartTyping jsval
  | StopTyping jsval
  | RequestOnlineUsers
  | CallUser jsval
  | AnswerMade jsval
  | IceCandidate jsval

fun on :: "sid \<Rightarrow> event \<Rightarrow> server \<Rightarrow> outcome" where
  "on sock (JoinConversation conversationId) st = on_joinConversation sock conversationId st"
| "on sock (SendMessage message) st = on_sendMessage sock message st"
| "on sock (MessageRead data) st = on_messageRead sock data st"
| "on sock (StartTyping data) st = on_startTyping sock data st"
| "on sock (StopTyping data) st = on_stopTyping sock data st"
| "on sock RequestOnlineUsers st = on_requestOnlineUsers sock st"
| "on sock (CallUser data) st = on_callUser sock data st"
| "on sock (AnswerMade data) st = on_answerMade sock data st"
| "on sock (IceCandidate data) st = on_iceCandidate sock data st"

text \<open>The channel to which the server routes a user: \<^verbatim>\<open>onlineUsers.get(u).socketId\<close>.\<close>

definition lookupChannel :: "server \<Rightarrow> uid \<Rightarrow> sid option" where
  "lookupChannel st u = map_option socketId (Map_get (onlineUsers st) u)"

section \<open>Runs of the server\<close>

definition connected :: "server \<Rightarrow> sid list" where
  "connected st = map fst (sockets st)"

text \<open>
  The transport gives every connection a fresh id, delivers events only from connected
  sockets, and closes a socket once.  An event whose handler throws ends the run (the
  exception is not caught), so the states of a run are those reached through handlers
  that returned.
\<close>

inductive reachable :: "server \<Rightarrow> bool" where
  start: "reachable init"
| opened: "reachable st \<Longrightarrow> sock \<notin> set (connected st) \<Longrightarrow>
           connection sock userId st = (st', out) \<Longrightarrow> reachable st'"
| received: "reachable st \<Longrightarrow> sock \<in> set (connected st) \<Longrightarrow>
           on sock e st = Inr (st', out) \<Longrightarrow> reachable st'"
| closed: "reachable st \<Longrightarrow> sock \<in> set (connected st) \<Longrightarrow>
           disconnect sock st = (st', out) \<Longrightarrow> reachable st'"

text \<open>
  The invariant of the runs: the three maps have distinct keys; every connected socket
  is in the room of its own id; the socket recorded for an online user is registered
  under that user in \<open>userSockets\<close>; the sockets of \<open>userSockets\<close> are connected and
  their user ids are not empty.
\<close>

definition consistent :: "server \<Rightarrow> bool" where
  "consistent st \<longleftrightarrow>
     distinct (map fst (sockets st))
     \<and> distinct (map fst (onlineUsers st))
     \<and> distinct (map fst (userSockets st))
     \<and> list_all (\<lambda>(s, rs). JStr s \<in> set rs) (sockets st)
     \<and> list_all (\<lambda>(u, p). Map_get (userSockets st) (socketId p) = Some u) (onlineUsers st)
     \<and> list_all (\<lambda>(s, u). u \<noteq> [] \<and> s \<in> set (connected st)) (userSockets st)"

text \<open>Membership of a channel in a room, and the emissions of one event name.\<close>

definition joined :: "server \<Rightarrow> sid \<Rightarrow> room \<Rightarrow> bool" where
  "joined st x r = (r \<in> set (socket_rooms st x))"

definition events_named :: "string \<Rightarrow> emission list \<Rightarrow> emission list" where
  "events_named ev out = [e \<leftarrow> out. fst (snd e) = ev]"

text \<open>What one channel receives.\<close>

definition received_by :: "sid \<Rightarrow> server \<Rightarrow> emission list \<Rightarrow> (sid \<times> string \<times> jsval) list" where
  "received_by x st out = [d \<leftarrow> deliveries st out. fst d = x]"

text \<open>
  The \<^verbatim>\<open>user-left-room\<close> notifications of a closing channel: one for each of its
  rooms other than the room of its own id, in the order in which it joined them.
\<close>

definition left_notifications :: "sid \<Rightarrow> server \<Rightarrow> emission list" where
  "left_notifications sock st =
     map (\<lambda>room. (SocketTo sock room, ''user-left-room'',
                   JObj [(''userId'', userSockets_get st sock), (''room'', room)]))
         [room \<leftarrow> socket_rooms st sock. room \<noteq> JStr sock]"

text \<open>
  A state used for the examples: users \<open>u1\<close> and \<open>u2\<close> are online on channels \<open>a\<close> and
  \<open>b\<close>, both joined to the conversation \<open>c1\<close>; channel \<open>c\<close> connected without a user id
  and joined nothing.
\<close>

definition example :: server where
  "example =
     \<lparr>onlineUsers = [(''u1'', \<lparr>socketId = ''a'', status = ''online''\<rparr>),
                     (''u2'', \<lparr>socketId = ''b'', status = ''online''\<rparr>)],
      userSockets = [(''a'', ''u1''), (''b'', ''u2'')],
      sockets = [(''a'', [JStr ''a'', JStr ''c1'']),
                 (''b'', [JStr ''b'', JStr ''c1'']),
                 (''c'', [JStr ''c''])]\<rparr>"

section \<open>The invariant holds in every run\<close>

lemma list_all_map_of:
  "distinct (map fst al) \<Longrightarrow> list_all P al \<longleftrightarrow> (\<forall>k v. map_of al k = Some v \<longrightarrow> P (k, v))"
  by (auto simp: list_all_iff)

lemma in_keys_map_of: "k \<in> set (map fst al) \<longleftrightarrow> map_of al k \<noteq> None"
  by (simp add: map_of_eq_None_iff)

lemma consistent_iff:
  "consistent st \<longleftrightarrow>
     distinct (map fst (sockets st))
     \<and> distinct (map fst (onlineUsers st))
     \<and> distinct (map fst (userSockets st))
     \<and> (\<forall>s rs. map_of (sockets st) s = Some rs \<longrightarrow> JStr s \<in> set rs)
     \<and> (\<forall>u p. map_of (onlineUsers st) u = Some p \<longrightarrow>
            map_of (userSockets st) (socketId p) = Some u)
     \<and> (\<forall>s u. map_of (userSockets st) s = Some u \<longrightarrow>
            u \<noteq> [] \<and> map_of (sockets st) s \<noteq> None)"
proof (cases "distinct (map fst (sockets st)) \<and> distinct (map fst (onlineUsers st))
     \<and> distinct (map fst (userSockets st))")
  case True
  then show ?thesis
    unfolding consistent_def connected_def Map_get_def in_keys_map_of
    by (simp only: list_all_map_of split_conv simp_thms)
next
  case False
  then show ?thesis unfolding consistent_def by blast
qed

lemma consistent_init: "consistent init"
  by (simp add: consistent_def init_def)

lemma consistent_connection:
  assumes "consistent st" "sock \<notin> set (connected st)" "connection sock userId st = (st', out)"
  shows "consistent st'"
proof -
  from assms(2) have fresh: "map_of (sockets st) sock = None"
    by (simp add: connected_def map_of_eq_None_iff)
  from assms(1) fresh have unbound: "map_of (userSockets st) sock = None"
    unfolding consistent_iff by (metis option.exhaust)
  have elsewhere: "\<And>u p. map_of (onlineUsers st) u = Some p \<Longrightarrow> socketId p \<noteq> sock"
    using assms(1) unbound unfolding consistent_iff by fastforce
  let ?st0 = "st\<lparr>sockets := Map_set sock [JStr sock] (sockets st)\<rparr>"
  show ?thesis
  proof (cases "\<exists>u. userId = JStr u \<and> u \<noteq> []")
    case False
    then have "st' = ?st0" using assms(3)
      by (auto simp: connection_def Let_def split: jsval.splits if_splits)
    then show ?thesis
      using assms(1) fresh unfolding consistent_iff Map_set_def
      by (auto simp: update_conv' distinct_update simp del: map_of_eq_Some_iff)
  next
    case True
    then obtain u where u: "userId = JStr u" "u \<noteq> []" by blast
    then have st': "st' = ?st0\<lparr>onlineUsers :=
          Map_set u \<lparr>socketId = sock, status = ''online''\<rparr> (onlineUsers st),
        userSockets := Map_set sock u (userSockets st)\<rparr>"
      using assms(3) by (simp add: connection_def handleUserConnection_def Let_def)
    show ?thesis
      using assms(1) fresh unbound u(2) elsewhere unfolding st' consistent_iff Map_set_def
      by (auto simp: update_conv' distinct_update simp del: map_of_eq_Some_iff)
  qed
qed

lemma consistent_join:
  assumes "consistent st"
  shows "consistent (join sock r st)"
proof (cases "map_of (sockets st) sock")
  case None
  then show ?thesis using assms by (simp add: join_def Map_get_def)
next
  case (Some rs)
  show ?thesis
    using assms Some unfolding consistent_iff join_def Map_get_def Map_set_def
    by (auto simp: update_conv' distinct_update simp del: map_of_eq_Some_iff)
qed

lemma consistent_on:
  assumes "consistent st" "on sock e st = Inr (st', out)"
  shows "consistent st'"
proof (cases e)
  case (JoinConversation c)
  then show ?thesis using assms consistent_join[OF assms(1)]
    by (auto simp: on_joinConversation_def Let_def split: if_splits)
qed (use assms in \<open>auto simp: on_sendMessage_def on_messageRead_def on_startTyping_def on_stopTyping_def
        on_requestOnlineUsers_def on_callUser_def on_answerMade_def on_iceCandidate_def
        Let_def split: if_splits option.splits\<close>)

lemma consistent_disconnect:
  assumes "consistent st" "disconnect sock st = (st', out)"
  shows "consistent st'"
proof (cases "map_of (userSockets st) sock")
  case None
  then have st': "st' = st\<lparr>sockets := Map_delete sock (sockets st)\<rparr>"
    using assms(2)
    by (simp add: disconnect_def handleUserDisconnection_def userSockets_get_def
        Map_get_def Let_def)
  have elsewhere: "\<And>u p. map_of (onlineUsers st) u = Some p \<Longrightarrow> socketId p \<noteq> sock"
    using assms(1) None unfolding consistent_iff by fastforce
  show ?thesis
    using assms(1) None elsewhere unfolding st' consistent_iff Map_delete_def
    by (auto simp: delete_conv' distinct_delete simp del: map_of_eq_Some_iff)
next
  case (Some u)
  with assms(1) have ne: "u \<noteq> []" unfolding consistent_iff by blast
  then have st': "st' = st\<lparr>onlineUsers := Map_delete u (onlineUsers st),
       userSockets := Map_delete sock (userSockets st),
       sockets := Map_delete sock (sockets st)\<rparr>"
    using assms(2) Some
    by (simp add: disconnect_def handleUserDisconnection_def userSockets_get_def
        Map_get_def Let_def)
  have elsewhere:
    "\<And>v p. map_of (onlineUsers st) v = Some p \<Longrightarrow> v \<noteq> u \<Longrightarrow> socketId p \<noteq> sock"
    using assms(1) Some unfolding consistent_iff by fastforce
  show ?thesis
    using assms(1) Some elsewhere unfolding st' consistent_iff Map_delete_def
    by (auto simp: delete_conv' distinct_delete simp del: map_of_eq_Some_iff)
qed

text \<open>Every state of a run satisfies the invariant.\<close>

theorem reachable_consistent: "reachable st \<Longrightarrow> consistent st"
  by (induction rule: reachable.induct)
     (auto intro: consistent_init consistent_connection consistent_on consistent_disconnect)

section \<open>Auxiliary facts\<close>

text \<open>The example state is a state of a run, and satisfies the invariant.\<close>

lemma consistent_example: "consistent example"
  by (simp add: consistent_def example_def connected_def Map_get_def)

lemma example_run:
  "example =
     (let s1 = fst (connection ''a'' (JStr ''u1'') init);
          s2 = fst (connection ''b'' (JStr ''u2'') s1);
          s3 = fst (connection ''c'' JUndefined s2);
          s4 = join ''a'' (JStr ''c1'') s3
      in join ''b'' (JStr ''c1'') s4)"
  by (simp add: example_def connection_def handleUserConnection_def init_def join_def
      Map_get_def Map_set_def Let_def)

lemma reachable_example: "reachable example"
proof -
  define s1 where "s1 = fst (connection ''a'' (JStr ''u1'') init)"
  define s2 where "s2 = fst (connection ''b'' (JStr ''u2'') s1)"
  define s3 where "s3 = fst (connection ''c'' JUndefined s2)"
  define s4 where "s4 = join ''a'' (JStr ''c1'') s3"
  have c1: "connected s1 = [''a'']"
    by (simp add: s1_def connection_def handleUserConnection_def init_def connected_def
        Map_set_def Let_def)
  have c2: "connected s2 = [''a'', ''b'']"
    using c1 by (simp add: s2_def connection_def handleUserConnection_def connected_def
        Map_set_def Let_def update_keys)
  have c3: "connected s3 = [''a'', ''b'', ''c'']"
    using c2 by (simp add: s3_def connection_def connected_def Map_set_def Let_def update_keys)
  have c4: "connected s4 = [''a'', ''b'', ''c'']"
    using c3 by (simp add: s4_def join_def connected_def Map_set_def Let_def update_keys
        split: option.splits)
  have r1: "reachable s1"
    by (rule reachable.opened[OF reachable.start, of "''a''" "JStr ''u1''" _
          "snd (connection ''a'' (JStr ''u1'') init)"])
       (simp_all add: s1_def init_def connected_def)
  have r2: "reachable s2"
    by (rule reachable.opened[OF r1, of "''b''" "JStr ''u2''" _
          "snd (connection ''b'' (JStr ''u2'') s1)"])
       (simp_all add: s2_def c1)
  have r3: "reachable s3"
    by (rule reachable.opened[OF r2, of "''c''" JUndefined _
          "snd (connection ''c'' JUndefined s2)"])
       (simp_all add: s3_def c2)
  have r4: "reachable s4"
    by (rule reachable.received[OF r3, of "''a''" "JoinConversation (JStr ''c1'')" _ "[]"])
       (simp_all add: s4_def c3 on_joinConversation_def log_throws_def)
  have r5: "reachable (join ''b'' (JStr ''c1'') s4)"
    by (rule reachable.received[OF r4, of "''b''" "JoinConversation (JStr ''c1'')" _ "[]"])
       (simp_all add: c4 on_joinConversation_def log_throws_def)
  then show ?thesis
    unfolding example_run s4_def s3_def s2_def s1_def Let_def .
qed

text \<open>The definitions unfolded to run the server on a concrete state.\<close>

lemmas run_defs =
  connection_def handleUserConnection_def disconnect_def handleUserDisconnection_def
  broadcastOnlineUsers_def onlineUserIds_def userSockets_get_def socket_rooms_def
  left_notifications_def lookupChannel_def join_def joined_def connected_def
  events_named_def received_by_def deliveries_def
  on_joinConversation_def on_sendMessage_def on_messageRead_def on_startTyping_def
  on_stopTyping_def on_requestOnlineUsers_def on_callUser_def on_answerMade_def
  on_iceCandidate_def
  log_throws_def Map_get_def Map_set_def Map_delete_def Map_keys_def Let_def split_beta
  init_def example_def

text \<open>
  What one channel receives of an emission: with distinct socket ids, a channel that
  is among the recipients receives the event once.
\<close>

lemma filter_key_distinct:
  "distinct (map fst al) \<Longrightarrow>
   [y \<leftarrow> map fst (filter P al). y = x] =
     (case map_of al x of Some v \<Rightarrow> if P (x, v) then [x] else [] | None \<Rightarrow> [])"
proof (induction al)
  case Nil
  then show ?case by simp
next
  case (Cons e al)
  obtain k v where e: "e = (k, v)" by (cases e)
  show ?case
  proof (cases "k = x")
    case True
    with Cons.prems e have "map_of al x = None"
      by (simp add: map_of_eq_None_iff)
    with Cons True e show ?thesis by simp
  next
    case False
    with Cons e show ?thesis by simp
  qed
qed

lemma received_by_single:
  "received_by x st [(t, ev, p)] = map (\<lambda>y. (y, ev, p)) [y \<leftarrow> recipients st t. y = x]"
  by (simp add: received_by_def deliveries_def filter_map comp_def)

lemma received_by_IoTo:
  assumes "consistent st"
  shows "received_by x st [(IoTo r, ev, p)] = (if joined st x r then [(x, ev, p)] else [])"
proof -
  from assms have d: "distinct (map fst (sockets st))" by (simp add: consistent_def)
  show ?thesis
    unfolding received_by_single
    by (simp add: filter_key_distinct[OF d] joined_def socket_rooms_def Map_get_def
        split: option.splits)
qed

lemma received_by_SocketTo:
  assumes "consistent st"
  shows "received_by x st [(SocketTo s r, ev, p)] =
           (if x \<noteq> s \<and> joined st x r then [(x, ev, p)] else [])"
proof -
  from assms have d: "distinct (map fst (sockets st))" by (simp add: consistent_def)
  show ?thesis
    unfolding received_by_single
    by (simp add: filter_key_distinct[OF d] joined_def socket_rooms_def Map_get_def
        split: option.splits)
qed

text \<open>The channel recorded for an online user is connected, hence in its own room.\<close>

lemma joined_own_room:
  assumes "consistent st" "x \<in> set (connected st)"
  shows "joined st x (JStr x)"
proof -
  from assms(2) obtain rs where "map_of (sockets st) x = Some rs"
    by (auto simp: connected_def in_keys_map_of simp del: set_map)
  with assms(1) show ?thesis
    unfolding consistent_iff joined_def socket_rooms_def Map_get_def by auto
qed

lemma online_connected:
  assumes "consistent st" "Map_get (onlineUsers st) u = Some r"
  shows "socketId r \<in> set (connected st)"
  using assms unfolding consistent_iff Map_get_def connected_def in_keys_map_of
  by blast

lemma online_joined:
  assumes "consistent st" "onlineUsers_get st to = Some r"
  shows "joined st (socketId r) (JStr (socketId r))"
proof -
  from assms(2) obtain u where "Map_get (onlineUsers st) u = Some r"
    by (cases to) auto
  then show ?thesis
    using assms(1) joined_own_room online_connected by blast
qed

text \<open>The loop of \<open>handleUserDisconnection\<close> emits the notifications of the rooms left.\<close>

lemma leave_rooms_eq:
  "leave_rooms sock st rs =
     map (\<lambda>room. (SocketTo sock room, ''user-left-room'',
                   JObj [(''userId'', userSockets_get st sock), (''room'', room)]))
         [room \<leftarrow> rs. room \<noteq> JStr sock]"
  by (induction rs) simp_all

lemma events_named_append:
  "events_named ev (xs @ ys) = events_named ev xs @ events_named ev ys"
  by (simp add: events_named_def)

lemma events_named_left:
  "events_named ev (left_notifications sock st) =
     (if ev = ''user-left-room'' then left_notifications sock st else [])"
  by (simp add: events_named_def left_notifications_def filter_map comp_def)

section \<open>Disconnection of a superseded channel\<close>

text \<open>
  C1 as stated: after user \<open>U\<close> has connected on channel \<open>C1\<close> and then on channel \<open>C2\<close>,
  the disconnection of \<open>C1\<close> leaves \<open>U\<close> routed to \<open>C2\<close>.  The handler has no such
  guard: it deletes the entry of the user that \<open>userSockets\<close> records for the closing
  socket, whichever socket that entry names.
\<close>

theorem stale_disconnect_counterexample:
  "lookupChannel
     (fst (disconnect ''C1''
        (fst (connection ''C2'' (JStr ''U'')
           (fst (connection ''C1'' (JStr ''U'') init))))))
     ''U'' \<noteq> Some ''C2''"
  by (simp add: connection_def handleUserConnection_def disconnect_def
      handleUserDisconnection_def lookupChannel_def Map_get_def Map_set_def Map_delete_def
      init_def userSockets_get_def Let_def broadcastOnlineUsers_def socket_rooms_def)

text \<open>
  C1 (amended).  For every non-empty user id \<open>U\<close> and distinct channels \<open>C1\<close>, \<open>C2\<close>:
  after \<open>U\<close> has connected on \<open>C1\<close> and then on \<open>C2\<close>, \<open>U\<close> is routed to \<open>C2\<close>; the
  disconnection of \<open>C1\<close> then removes the presence entry of \<open>U\<close> (the user has no
  channel any more and is not in the roster), while \<open>userSockets\<close> still maps \<open>C2\<close> to
  \<open>U\<close>.
\<close>

theorem stale_disconnect_evicts_user:
  assumes "U \<noteq> []" and "C1 \<noteq> C2"
  shows "let st2 = fst (connection C2 (JStr U) (fst (connection C1 (JStr U) st)));
             st3 = fst (disconnect C1 st2)
         in lookupChannel st2 U = Some C2
            \<and> lookupChannel st3 U = None
            \<and> U \<notin> set (onlineUserIds st3)
            \<and> Map_get (userSockets st3) C2 = Some U"
  using assms
  by (simp add: connection_def handleUserConnection_def disconnect_def
      handleUserDisconnection_def lookupChannel_def onlineUserIds_def Map_keys_def
      Map_get_def Map_set_def Map_delete_def userSockets_get_def Let_def
      update_conv' delete_conv' delete_notin_dom)

theorem stale_disconnect_evicts_user_witness:
  "''u1'' \<noteq> [] \<and> ''a'' \<noteq> ''b''
   \<and> (let st2 = fst (connection ''b'' (JStr ''u1'') (fst (connection ''a'' (JStr ''u1'') init)));
           st3 = fst (disconnect ''a'' st2)
       in lookupChannel st2 ''u1'' = Some ''b''
          \<and> lookupChannel st3 ''u1'' = None
          \<and> ''u1'' \<notin> set (onlineUserIds st3)
          \<and> Map_get (userSockets st3) ''b'' = Some ''u1'')"
  using stale_disconnect_evicts_user [of "''u1''" "''a''" "''b''" init]
  by simp

section \<open>The roster sent on connection\<close>

text \<open>
  C2 as stated: on a connection with a non-empty user id, the roster is sent to the new
  channel only.  \<open>handleUserConnection\<close> calls \<^verbatim>\<open>broadcastOnlineUsers()\<close> without a
  socket, which emits on the whole server: here channel \<open>A\<close>, connected before, receives
  the roster when \<open>B\<close> connects as user \<open>u\<close>.
\<close>

theorem roster_counterexample:
  "received_by ''A''
     (fst (connection ''B'' (JStr ''u'') (fst (connection ''A'' JUndefined init))))
     (snd (connection ''B'' (JStr ''u'') (fst (connection ''A'' JUndefined init))))
   = [(''A'', ''userOnline'', JStr ''u''), (''A'', ''onlineUsersList'', JArr [JStr ''u''])]"
  by (simp add: connection_def handleUserConnection_def Let_def broadcastOnlineUsers_def
      received_by_def deliveries_def Map_set_def init_def onlineUserIds_def Map_keys_def)

text \<open>
  C2 (amended).  On the connection of a channel that supplies a non-empty user id, the
  handler emits the \<^verbatim>\<open>userOnline\<close> broadcast to the other channels and then one
  \<^verbatim>\<open>onlineUsersList\<close> carrying the full current roster, which is sent to every
  connected channel: the channels connected before and the new one.
\<close>

theorem connection_roster_to_all:
  assumes "u \<noteq> []"
  shows "case connection sock (JStr u) st of (st', out) \<Rightarrow>
           out = [(Broadcast sock, ''userOnline'', JStr u),
                  (Io, ''onlineUsersList'', JArr (map JStr (onlineUserIds st')))]
           \<and> deliveries st' (events_named ''onlineUsersList'' out) =
               map (\<lambda>x. (x, ''onlineUsersList'', JArr (map JStr (onlineUserIds st'))))
                   (connected st')
           \<and> set (connected st') = insert sock (set (connected st))"
  using assms
  by (simp add: connection_def handleUserConnection_def Let_def broadcastOnlineUsers_def
      events_named_def deliveries_def connected_def Map_set_def dom_update)

theorem connection_roster_to_all_witness:
  "''u3'' \<noteq> []
   \<and> snd (connection ''d'' (JStr ''u3'') example) =
       [(Broadcast ''d'', ''userOnline'', JStr ''u3''),
        (Io, ''onlineUsersList'', JArr [JStr ''u1'', JStr ''u2'', JStr ''u3''])]
   \<and> deliveries (fst (connection ''d'' (JStr ''u3'') example))
        (events_named ''onlineUsersList'' (snd (connection ''d'' (JStr ''u3'') example))) =
       [(''a'', ''onlineUsersList'', JArr [JStr ''u1'', JStr ''u2'', JStr ''u3'']),
        (''b'', ''onlineUsersList'', JArr [JStr ''u1'', JStr ''u2'', JStr ''u3'']),
        (''c'', ''onlineUsersList'', JArr [JStr ''u1'', JStr ''u2'', JStr ''u3'']),
        (''d'', ''onlineUsersList'', JArr [JStr ''u1'', JStr ''u2'', JStr ''u3''])]"
  using connection_roster_to_all [of "''u3''" "''d''" example]
  by (simp add: run_defs)

section \<open>Cleanup on disconnection\<close>

text \<open>
  C3.  When a channel disconnects, the handler first emits a \<^verbatim>\<open>user-left-room\<close>
  notification to each room the channel had joined, in order, and these are all the
  \<^verbatim>\<open>user-left-room\<close> events.  If the channel had a registered user id \<open>u\<close> (the ids
  registered are never empty), the notifications are followed by one \<^verbatim>\<open>userOffline\<close>
  broadcast, the only one, which reaches all other channels (and by the new roster);
  the user is removed from the registry: the lookup of its channel is absent, the user
  is not in the roster, and the channel has no user any more.  If the channel had no
  user id, nothing else is emitted and the registry is unchanged.
\<close>

theorem disconnect_cleanup:
  "case disconnect sock st of (st', out) \<Rightarrow>
     events_named ''user-left-room'' out = left_notifications sock st
     \<and> (case Map_get (userSockets st) sock of
          None \<Rightarrow> out = left_notifications sock st \<and> onlineUsers st' = onlineUsers st
        | Some u \<Rightarrow>
            u \<noteq> [] \<longrightarrow>
              out = left_notifications sock st
                    @ [(Broadcast sock, ''userOffline'', JStr u),
                       (Io, ''onlineUsersList'', JArr (map JStr (onlineUserIds st')))]
              \<and> events_named ''userOffline'' out = [(Broadcast sock, ''userOffline'', JStr u)]
              \<and> recipients st (Broadcast sock) = [x \<leftarrow> connected st. x \<noteq> sock]
              \<and> lookupChannel st' u = None
              \<and> u \<notin> set (onlineUserIds st')
              \<and> Map_get (userSockets st') sock = None)"
proof -
  have L: "leave_rooms sock st (socket_rooms st sock) = left_notifications sock st"
    by (simp add: leave_rooms_eq left_notifications_def)
  show ?thesis
  proof (cases "Map_get (userSockets st) sock")
    case None
    then show ?thesis
      unfolding disconnect_def handleUserDisconnection_def L
      by (simp add: userSockets_get_def events_named_left)
  next
    case (Some u)
    show ?thesis
    proof (cases "u = []")
      case True
      with Some show ?thesis
        unfolding disconnect_def handleUserDisconnection_def L
        by (simp add: userSockets_get_def events_named_left)
    next
      case False
      with Some show ?thesis
        unfolding disconnect_def handleUserDisconnection_def L
        by (simp add: userSockets_get_def events_named_left events_named_append
            broadcastOnlineUsers_def lookupChannel_def onlineUserIds_def Map_keys_def
            Map_get_def Map_delete_def delete_conv' delete_notin_dom connected_def)
           (simp add: events_named_def)
    qed
  qed
qed

theorem disconnect_cleanup_witness:
  "Map_get (userSockets example) ''a'' = Some ''u1'' \<and> ''u1'' \<noteq> []
   \<and> snd (disconnect ''a'' example) =
       [(SocketTo ''a'' (JStr ''c1''), ''user-left-room'',
         JObj [(''userId'', JStr ''u1''), (''room'', JStr ''c1'')]),
        (Broadcast ''a'', ''userOffline'', JStr ''u1''),
        (Io, ''onlineUsersList'', JArr [JStr ''u2''])]
   \<and> events_named ''userOffline'' (snd (disconnect ''a'' example)) =
       [(Broadcast ''a'', ''userOffline'', JStr ''u1'')]
   \<and> recipients example (Broadcast ''a'') = [''b'', ''c'']
   \<and> lookupChannel (fst (disconnect ''a'' example)) ''u1'' = None
   \<and> Map_get (userSockets example) ''c'' = None
   \<and> snd (disconnect ''c'' example) = []
   \<and> onlineUsers (fst (disconnect ''c'' example)) = onlineUsers example"
  using disconnect_cleanup [of "''a''" example] disconnect_cleanup [of "''c''" example]
  by (simp add: run_defs)

section \<open>Relay of a message to its room\<close>

text \<open>
  C4.  A \<^verbatim>\<open>sendMessage\<close> event from channel \<open>A\<close> whose message carries the non-empty
  conversation id \<open>c\<close> makes one \<^verbatim>\<open>newMessage\<close> emission, and of it every channel
  joined to room \<open>c\<close> other than \<open>A\<close> receives the message exactly once, while \<open>A\<close> and
  the channels not joined to \<open>c\<close> receive nothing.
\<close>

theorem sendMessage_room:
  assumes "consistent st"
    and "getprop message ''conversationId'' = JStr c" and "c \<noteq> []"
  shows "on A (SendMessage message) st =
           Inr (st, [(SocketTo A (JStr c), ''newMessage'', message)])
         \<and> (\<forall>x. received_by x st [(SocketTo A (JStr c), ''newMessage'', message)] =
                  (if x \<noteq> A \<and> joined st x (JStr c)
                   then [(x, ''newMessage'', message)] else []))"
proof -
  from assms(2) have "\<not> nullish message" by (cases message) auto
  with assms(2,3) have "on A (SendMessage message) st =
      Inr (st, [(SocketTo A (JStr c), ''newMessage'', message)])"
    by (simp add: on_sendMessage_def)
  then show ?thesis using received_by_SocketTo[OF assms(1)] by simp
qed

theorem sendMessage_room_witness:
  "consistent example
   \<and> getprop (JObj [(''conversationId'', JStr ''c1''), (''content'', JStr ''hi'')])
        ''conversationId'' = JStr ''c1''
   \<and> ''c1'' \<noteq> []
   \<and> on ''a'' (SendMessage (JObj [(''conversationId'', JStr ''c1''), (''content'', JStr ''hi'')]))
        example =
       Inr (example, [(SocketTo ''a'' (JStr ''c1''), ''newMessage'',
                       JObj [(''conversationId'', JStr ''c1''), (''content'', JStr ''hi'')])])
   \<and> deliveries example [(SocketTo ''a'' (JStr ''c1''), ''newMessage'',
                       JObj [(''conversationId'', JStr ''c1''), (''content'', JStr ''hi'')])] =
       [(''b'', ''newMessage'',
         JObj [(''conversationId'', JStr ''c1''), (''content'', JStr ''hi'')])]"
  using sendMessage_room [OF consistent_example,
      of "JObj [(''conversationId'', JStr ''c1''), (''content'', JStr ''hi'')]" "''c1''" "''a''"]
    consistent_example
  by (simp add: deliveries_def example_def)

section \<open>Missing conversation id\<close>

text \<open>
  C5 as stated: every \<^verbatim>\<open>sendMessage\<close> event whose message lacks a \<^verbatim>\<open>conversationId\<close>
  is answered with one \<^verbatim>\<open>error\<close> event, and the handler does not throw.  The handler
  destructures the message before it tests the id: when the client sends \<^verbatim>\<open>null\<close> as
  the message (or no message), \<^verbatim>\<open>const { conversationId } = message\<close> throws a
  TypeError and nothing is emitted.
\<close>

theorem sendMessage_null_counterexample:
  "on ''a'' (SendMessage JNull) example = Inl (TypeError, example, [])"
  by (simp add: on_sendMessage_def)

text \<open>
  C5 (amended).  For every \<^verbatim>\<open>sendMessage\<close> event whose message is a value other than
  \<^verbatim>\<open>undefined\<close> and \<^verbatim>\<open>null\<close> and has no \<^verbatim>\<open>conversationId\<close> (or an empty one), the
  handler returns normally, with the state unchanged (so the sender stays connected),
  having made exactly one emission: an \<^verbatim>\<open>error\<close> event on the sender's own socket,
  which reaches no other channel; there is no \<^verbatim>\<open>newMessage\<close>.
\<close>

theorem sendMessage_without_conversationId:
  assumes "\<not> nullish message" and "\<not> truthy (getprop message ''conversationId'')"
  shows "on sock (SendMessage message) st =
           Inr (st, [(Socket sock, ''error'',
                      JObj [(''message'', JStr ''Message must have a conversationId.'')])])
         \<and> recipients st (Socket sock) = [x \<leftarrow> connected st. x = sock]"
  using assms by (simp add: on_sendMessage_def connected_def)

theorem sendMessage_without_conversationId_witness:
  "\<not> nullish (JObj [(''content'', JStr ''hi'')])
   \<and> \<not> truthy (getprop (JObj [(''content'', JStr ''hi'')]) ''conversationId'')
   \<and> on ''a'' (SendMessage (JObj [(''content'', JStr ''hi'')])) example =
        Inr (example, [(Socket ''a'', ''error'',
                        JObj [(''message'', JStr ''Message must have a conversationId.'')])])
   \<and> recipients example (Socket ''a'') = [''a'']"
  using sendMessage_without_conversationId [of "JObj [(''content'', JStr ''hi'')]" "''a''" example]
  by (simp add: example_def connected_def)

section \<open>Call signalling\<close>

text \<open>
  C6.  For every \<^verbatim>\<open>call-user\<close> event with a payload \<^verbatim>\<open>{to, from, signal}\<close> whose \<open>to\<close>
  and \<open>from\<close> are user ids (strings, as in the data model): if \<open>to\<close> is registered, the
  handler returns normally with exactly one emission, \<^verbatim>\<open>incoming-call\<close> with the
  payload \<^verbatim>\<open>{from, signal}\<close>, addressed to the current channel of \<open>to\<close>, and that
  channel receives it exactly once; if \<open>to\<close> is not registered, the handler returns
  normally and emits nothing.  The state is unchanged in both cases.
\<close>

theorem callUser_delivery:
  assumes "consistent st"
    and "getprop data ''to'' = JStr t" and "getprop data ''from'' = JStr f"
  shows "(\<forall>ch. lookupChannel st t = Some ch \<longrightarrow>
            on sock (CallUser data) st =
              Inr (st, [(IoTo (JStr ch), ''incoming-call'',
                         JObj [(''from'', JStr f), (''signal'', getprop data ''signal'')])])
            \<and> received_by ch st
                 [(IoTo (JStr ch), ''incoming-call'',
                   JObj [(''from'', JStr f), (''signal'', getprop data ''signal'')])] =
                [(ch, ''incoming-call'',
                  JObj [(''from'', JStr f), (''signal'', getprop data ''signal'')])])
       \<and> (lookupChannel st t = None \<longrightarrow>
            on sock (CallUser data) st = Inr (st, []))"
proof -
  from assms(2) have data: "\<not> nullish data" by (cases data) auto
  have conv: "\<not> log_throws [JStr f, JStr t]" "\<not> log_throws [JStr t]"
    by (simp_all add: log_throws_def)
  show ?thesis
  proof (cases "Map_get (onlineUsers st) t")
    case None
    then show ?thesis
      using data assms(2,3) conv by (simp add: on_callUser_def lookupChannel_def)
  next
    case (Some r)
    then have "onlineUsers_get st (JStr t) = Some r" by simp
    then have "joined st (socketId r) (JStr (socketId r))"
      by (rule online_joined[OF assms(1)])
    then show ?thesis
      using Some data assms(2,3) conv received_by_IoTo[OF assms(1)]
      by (simp add: on_callUser_def lookupChannel_def)
  qed
qed

theorem callUser_delivery_witness:
  "consistent example
   \<and> getprop (JObj [(''to'', JStr ''u2''), (''from'', JStr ''u1''), (''signal'', JNum 7)]) ''to''
       = JStr ''u2''
   \<and> getprop (JObj [(''to'', JStr ''u2''), (''from'', JStr ''u1''), (''signal'', JNum 7)]) ''from''
       = JStr ''u1''
   \<and> lookupChannel example ''u2'' = Some ''b''
   \<and> on ''a'' (CallUser (JObj [(''to'', JStr ''u2''), (''from'', JStr ''u1''), (''signal'', JNum 7)]))
        example =
       Inr (example, [(IoTo (JStr ''b''), ''incoming-call'',
                       JObj [(''from'', JStr ''u1''), (''signal'', JNum 7)])])
   \<and> received_by ''b'' example
        [(IoTo (JStr ''b''), ''incoming-call'',
          JObj [(''from'', JStr ''u1''), (''signal'', JNum 7)])] =
       [(''b'', ''incoming-call'', JObj [(''from'', JStr ''u1''), (''signal'', JNum 7)])]
   \<and> getprop (JObj [(''to'', JStr ''u9''), (''from'', JStr ''u1''), (''signal'', JNum 7)]) ''to''
       = JStr ''u9''
   \<and> lookupChannel example ''u9'' = None
   \<and> on ''a'' (CallUser (JObj [(''to'', JStr ''u9''), (''from'', JStr ''u1''), (''signal'', JNum 7)]))
        example = Inr (example, [])"
  using callUser_delivery [OF consistent_example,
      of "JObj [(''to'', JStr ''u2''), (''from'', JStr ''u1''), (''signal'', JNum 7)]"
         "''u2''" "''u1''" "''a''"]
    callUser_delivery [OF consistent_example,
      of "JObj [(''to'', JStr ''u9''), (''from'', JStr ''u1''), (''signal'', JNum 7)]"
         "''u9''" "''u1''" "''a''"]
    consistent_example
  by (simp add: example_def Map_get_def lookupChannel_def)

section \<open>Forwarding of ICE candidates\<close>





section \<open>Order of the roster\<close>

text \<open>
  C8.  The roster \<^verbatim>\<open>Array.from(onlineUsers.keys())\<close> lists the current entries in
  insertion order: when two distinct new users \<open>U1\<close> and then \<open>U2\<close> connect (on distinct
  channels \<open>S1\<close>, \<open>S2\<close>), the roster is the former one followed by \<open>U1, U2\<close>, and after
  the channel of \<open>U1\<close> disconnects it is the former one followed by \<open>U2\<close>.  From the
  empty registry these are \<open>[U1, U2]\<close> and \<open>[U2]\<close>.
\<close>

theorem roster_insertion_order:
  assumes "U1 \<noteq> []" "U2 \<noteq> []" "U1 \<noteq> U2" "S1 \<noteq> S2"
    and "U1 \<notin> set (onlineUserIds st)" "U2 \<notin> set (onlineUserIds st)"
  shows "let st1 = fst (connection S1 (JStr U1) st);
             st2 = fst (connection S2 (JStr U2) st1);
             st3 = fst (disconnect S1 st2)
         in onlineUserIds st2 = onlineUserIds st @ [U1, U2]
            \<and> onlineUserIds st3 = onlineUserIds st @ [U2]"
  using assms
  by (simp add: connection_def handleUserConnection_def disconnect_def
      handleUserDisconnection_def onlineUserIds_def Map_keys_def
      Map_get_def Map_set_def Map_delete_def userSockets_get_def Let_def
      update_conv' update_keys delete_keys dom_update)

theorem roster_insertion_order_witness:
  "''U1'' \<noteq> [] \<and> ''U2'' \<noteq> [] \<and> ''U1'' \<noteq> ''U2'' \<and> ''S1'' \<noteq> ''S2''
   \<and> ''U1'' \<notin> set (onlineUserIds init) \<and> ''U2'' \<notin> set (onlineUserIds init)
   \<and> onlineUserIds
        (fst (connection ''S2'' (JStr ''U2'') (fst (connection ''S1'' (JStr ''U1'') init))))
       = [''U1'', ''U2'']
   \<and> onlineUserIds (fst (disconnect ''S1''
        (fst (connection ''S2'' (JStr ''U2'') (fst (connection ''S1'' (JStr ''U1'') init))))))
       = [''U2'']"
  using roster_insertion_order [of "''U1''" "''U2''" "''S1''" "''S2''" init]
  by (simp add: onlineUserIds_def init_def Map_keys_def Let_def)

section \<open>The registry is changed by connection and disconnection only\<close>

text \<open>
  C9.  None of the handlers of \<^verbatim>\<open>joinConversation\<close>, \<^verbatim>\<open>sendMessage\<close>,
  \<^verbatim>\<open>messageRead\<close>, \<^verbatim>\<open>startTyping\<close>, \<^verbatim>\<open>stopTyping\<close>, \<^verbatim>\<open>request-online-users\<close>,
  \<^verbatim>\<open>call-user\<close>, \<^verbatim>\<open>answer-made\<close> and \<^verbatim>\<open>ice-candidate\<close> changes the registry: for
  every such event, channel and state, the state after the handler has the same
  \<open>onlineUsers\<close> and the same \<open>userSockets\<close>, whether the handler returned or threw.
\<close>

theorem handlers_keep_registry:
  "case on sock e st of
     Inl (err, st', out) \<Rightarrow>
       onlineUsers st' = onlineUsers st \<and> userSockets st' = userSockets st
   | Inr (st', out) \<Rightarrow> onlineUsers st' = onlineUsers st \<and> userSockets st' = userSockets st"
  by (cases e)
     (auto simp: on_joinConversation_def on_sendMessage_def on_messageRead_def
        on_startTyping_def on_stopTyping_def
        on_requestOnlineUsers_def on_callUser_def on_answerMade_def on_iceCandidate_def
        join_def Let_def split: if_splits option.splits)

theorem handlers_keep_registry_witness:
  "on ''c'' (JoinConversation (JStr ''c1'')) example =
     Inr (example\<lparr>sockets := [(''a'', [JStr ''a'', JStr ''c1'']),
                               (''b'', [JStr ''b'', JStr ''c1'']),
                               (''c'', [JStr ''c'', JStr ''c1''])]\<rparr>, [])
   \<and> onlineUsers (example\<lparr>sockets := [(''a'', [JStr ''a'', JStr ''c1'']),
                               (''b'', [JStr ''b'', JStr ''c1'']),
                               (''c'', [JStr ''c'', JStr ''c1''])]\<rparr>) = onlineUsers example
   \<and> userSockets (example\<lparr>sockets := [(''a'', [JStr ''a'', JStr ''c1'']),
                               (''b'', [JStr ''b'', JStr ''c1'']),
                               (''c'', [JStr ''c'', JStr ''c1''])]\<rparr>) = userSockets example
   \<and> on ''a'' (MessageRead JNull) example = Inl (TypeError, example, [])"
  using handlers_keep_registry
          [where sock = "''c''" and e = "JoinConversation (JStr ''c1'')" and st = example]
        handlers_keep_registry
          [where sock = "''a''" and e = "MessageRead JNull" and st = example]
  by (simp add: run_defs)

end
